theory Spec2Isabelle
  imports Complex_Main "HOL-Library.Word"
begin

section \<open>Python values, exceptions and effects\<close>

text \<open>
  The module under study is \<^verbatim>\<open>mapadroid/mad_apk/apk_storage_db.py\<close>, the class
  \<^verbatim>\<open>APKStorageDatabase\<close>. Its methods talk to a database wrapper \<^verbatim>\<open>dbc\<close> and to the
  helper class \<^verbatim>\<open>MadApkHelper\<close>; both live outside the module. A method is modelled as a
  function from the state of the substrate to a result and the new state; a raised
  exception is the left injection of the result.
\<close>

type_synonym byte = "8 word"
type_synonym bytes = "byte list"

datatype py_error = NameError string | ZeroDivisionError | StorageBackendError

text \<open>The values that end up in the dictionaries handed to \<^verbatim>\<open>autoexec_insert\<close>.\<close>

datatype pyval = PInt int | PStr string | PBytes bytes | PNone

type_synonym row = "(string \<times> pyval) list"

text \<open>An object whose inner structure the module never inspects (the database session).\<close>

datatype pyobj = Obj string

type_synonym ('a, 's) io = "'s \<Rightarrow> (py_error + 'a) \<times> 's"

definition return_io :: "'a \<Rightarrow> ('a, 's) io" where
  "return_io a s = (Inr a, s)"

definition lift_io :: "py_error + 'a \<Rightarrow> ('a, 's) io" where
  "lift_io r s = (r, s)"

text \<open>Sequencing: an exception of the first statement skips the rest and keeps the state
  the statement left behind.\<close>

definition bind_io :: "('a, 's) io \<Rightarrow> ('a \<Rightarrow> ('b, 's) io) \<Rightarrow> ('b, 's) io" where
  "bind_io m f s = (case m s of (Inl e, s') \<Rightarrow> (Inl e, s') | (Inr a, s') \<Rightarrow> f a s')"

section \<open>The chunk splitting of \<^verbatim>\<open>save_file\<close>\<close>

text \<open>
  \<^verbatim>\<open>[data.getbuffer()[i * chunk_size:(i + 1) * chunk_size]
     for i in range((len(data.getbuffer()) + chunk_size - 1) // chunk_size)]\<close>

  Python integers are unbounded, \<^verbatim>\<open>//\<close> is floor division and raises on a zero divisor,
  \<^verbatim>\<open>range(k)\<close> is empty for \<open>k \<le> 0\<close>, and a slice clamps its bounds to the sequence, a
  negative bound counting from the end.
\<close>

definition slice_index :: "int \<Rightarrow> int \<Rightarrow> int" where
  "slice_index n i = (if i < 0 then max (i + n) 0 else min i n)"

definition py_slice :: "'a list \<Rightarrow> int \<Rightarrow> int \<Rightarrow> 'a list" where
  "py_slice xs start stop =
     (let n = int (length xs); a = slice_index n start; b = slice_index n stop
      in take (nat (b - a)) (drop (nat a) xs))"

definition py_range :: "int \<Rightarrow> int list" where
  "py_range k = map int [0..<nat k]"

definition floordiv :: "int \<Rightarrow> int \<Rightarrow> py_error + int" where
  "floordiv a b = (if b = 0 then Inl ZeroDivisionError else Inr (a div b))"

definition split_chunks :: "bytes \<Rightarrow> int \<Rightarrow> py_error + bytes list" where
  "split_chunks buf chunk_size =
     (case floordiv (int (length buf) + chunk_size - 1) chunk_size of
        Inl e \<Rightarrow> Inl e
      | Inr k \<Rightarrow> Inr (map (\<lambda>i. py_slice buf (i * chunk_size) ((i + 1) * chunk_size)) (py_range k)))"

text \<open>The number of chunks for a payload of \<open>n\<close> bytes, as a natural number.\<close>

definition chunk_count :: "nat \<Rightarrow> int \<Rightarrow> nat" where
  "chunk_count n C = nat ((int n + C - 1) div C)"

section \<open>Name resolution\<close>

text \<open>
  A name that is neither a parameter nor assigned in a function body is looked up in the
  module's globals and then among the builtins when the statement runs; a name bound in
  neither raises \<^verbatim>\<open>NameError\<close>. The globals of the module are the names its import
  statements, its assignment to \<^verbatim>\<open>logger\<close> and its class statement bind.
\<close>

type_synonym namespace = "(string \<times> pyobj) list"

definition names :: "string list \<Rightarrow> namespace" where
  "names ns = map (\<lambda>n. (n, Obj n)) ns"

definition module_globals :: namespace where
  "module_globals = names
     [''__name__'', ''__doc__'', ''__package__'', ''__loader__'', ''__spec__'', ''__file__'',
      ''__cached__'', ''__builtins__'',
      ''BytesIO'', ''RLock'', ''Optional'', ''global_variables'', ''LoggerEnums'',
      ''get_logger'', ''AbstractAPKStorage'', ''APKArch'', ''APKType'', ''MADPackages'',
      ''generate_filename'', ''MadApkHelper'', ''logger'', ''APKStorageDatabase'']"

definition builtins :: namespace where
  "builtins = names
     [''abs'', ''aiter'', ''all'', ''anext'', ''any'', ''ascii'', ''bin'', ''bool'',
      ''breakpoint'', ''bytearray'', ''bytes'', ''callable'', ''chr'', ''classmethod'',
      ''compile'', ''complex'', ''copyright'', ''credits'', ''delattr'', ''dict'', ''dir'',
      ''divmod'', ''enumerate'', ''eval'', ''exec'', ''exit'', ''filter'', ''float'',
      ''format'', ''frozenset'', ''getattr'', ''globals'', ''hasattr'', ''hash'', ''help'',
      ''hex'', ''id'', ''input'', ''int'', ''isinstance'', ''issubclass'', ''iter'', ''len'',
      ''license'', ''list'', ''locals'', ''map'', ''max'', ''memoryview'', ''min'', ''next'',
      ''object'', ''oct'', ''open'', ''ord'', ''pow'', ''print'', ''property'', ''quit'',
      ''range'', ''repr'', ''reversed'', ''round'', ''set'', ''setattr'', ''slice'',
      ''sorted'', ''staticmethod'', ''str'', ''sum'', ''super'', ''tuple'', ''type'', ''vars'',
      ''zip'', ''__import__'', ''__build_class__'', ''__debug__'',
      ''None'', ''True'', ''False'', ''Ellipsis'', ''NotImplemented'',
      ''BaseException'', ''Exception'', ''ArithmeticError'', ''AssertionError'',
      ''AttributeError'', ''BlockingIOError'', ''BrokenPipeError'', ''BufferError'',
      ''BytesWarning'', ''ChildProcessError'', ''ConnectionAbortedError'',
      ''ConnectionError'', ''ConnectionRefusedError'', ''ConnectionResetError'',
      ''DeprecationWarning'', ''EOFError'', ''EncodingWarning'', ''EnvironmentError'',
      ''FileExistsError'', ''FileNotFoundError'', ''FloatingPointError'',
      ''FutureWarning'', ''GeneratorExit'', ''IOError'', ''ImportError'', ''ImportWarning'',
      ''IndentationError'', ''IndexError'', ''InterruptedError'', ''IsADirectoryError'',
      ''KeyError'', ''KeyboardInterrupt'', ''LookupError'', ''MemoryError'',
      ''ModuleNotFoundError'', ''NameError'', ''NotADirectoryError'',
      ''NotImplementedError'', ''OSError'', ''OverflowError'',
      ''PendingDeprecationWarning'', ''PermissionError'', ''ProcessLookupError'',
      ''RecursionError'', ''ReferenceError'', ''ResourceWarning'', ''RuntimeError'',
      ''RuntimeWarning'', ''StopAsyncIteration'', ''StopIteration'', ''SyntaxError'',
      ''SyntaxWarning'', ''SystemError'', ''SystemExit'', ''TabError'', ''TimeoutError'',
      ''TypeError'', ''UnboundLocalError'', ''UnicodeDecodeError'', ''UnicodeEncodeError'',
      ''UnicodeError'', ''UnicodeTranslateError'', ''UnicodeWarning'', ''UserWarning'',
      ''ValueError'', ''Warning'', ''ZeroDivisionError'']"

definition load_global :: "namespace \<Rightarrow> string \<Rightarrow> py_error + pyobj" where
  "load_global g n =
     (case map_of g n of
        Some v \<Rightarrow> Inr v
      | None \<Rightarrow> (case map_of builtins n of Some v \<Rightarrow> Inr v | None \<Rightarrow> Inl (NameError n)))"

section \<open>Collaborators outside the module\<close>

text \<open>
  Modelled from the spec: the enum declarations of \<^verbatim>\<open>apk_enums\<close> are not part of the
  sources at hand. The spec's ArtifactKey is a pair of enum members; a member is
  represented by what its \<^verbatim>\<open>.value\<close> attribute holds, an integer.
\<close>

datatype APKType = APKType (type_value: int)
datatype APKArch = APKArch (arch_value: int)

text \<open>
  What \<^verbatim>\<open>save_file\<close> calls and does not define: \<^verbatim>\<open>MadApkHelper.delete_file\<close>, the method
  \<^verbatim>\<open>autoexec_insert\<close> of the wrapper \<^verbatim>\<open>dbc\<close> (table, row, and the keyword \<^verbatim>\<open>optype\<close> when
  it is passed), \<^verbatim>\<open>generate_filename\<close> and the constant
  \<^verbatim>\<open>global_variables.CHUNK_MAX_SIZE\<close>. They are parameters of the model: any of the
  calls may raise and may change the substrate. The two lookup methods take the helper
  method they delegate to as a parameter of their own.
\<close>

record 's collaborators =
  helper_delete_file :: "pyobj \<Rightarrow> APKType \<Rightarrow> APKArch \<Rightarrow> (bool, 's) io"
  autoexec_insert :: "string \<Rightarrow> row \<Rightarrow> string option \<Rightarrow> (pyval, 's) io"
  generate_filename :: "APKType \<Rightarrow> APKArch \<Rightarrow> string \<Rightarrow> string \<Rightarrow> py_error + string"
  CHUNK_MAX_SIZE :: int

section \<open>The methods of \<^verbatim>\<open>APKStorageDatabase\<close>\<close>

text \<open>
  \<^verbatim>\<open>return await MadApkHelper.delete_file(session, package, architecture)\<close>

  The arguments are evaluated before the call; \<^verbatim>\<open>session\<close> is a global name of the
  method body. The namespace of globals is the first parameter of each method.
\<close>

definition delete_file ::
  "namespace \<Rightarrow> 's collaborators \<Rightarrow> APKType \<Rightarrow> APKArch \<Rightarrow> (bool, 's) io" where
  "delete_file g ext package architecture =
     bind_io (lift_io (load_global g ''session''))
       (\<lambda>session. helper_delete_file ext session package architecture)"

definition get_current_version ::
  "namespace \<Rightarrow> (pyobj \<Rightarrow> APKType \<Rightarrow> APKArch \<Rightarrow> (string option, 's) io)
     \<Rightarrow> APKType \<Rightarrow> APKArch \<Rightarrow> (string option, 's) io" where
  "get_current_version g helper_get_current_version package architecture =
     bind_io (lift_io (load_global g ''session''))
       (\<lambda>session. helper_get_current_version session package architecture)"

definition get_current_package_info ::
  "namespace \<Rightarrow> (pyobj \<Rightarrow> APKType \<Rightarrow> ('info option, 's) io)
     \<Rightarrow> APKType \<Rightarrow> ('info option, 's) io" where
  "get_current_package_info g helper_get_current_package_info package =
     bind_io (lift_io (load_global g ''session''))
       (\<lambda>session. helper_get_current_package_info session package)"

definition get_storage_type :: string where
  "get_storage_type = ''db''"

text \<open>The three dictionaries \<^verbatim>\<open>insert_data\<close> that \<^verbatim>\<open>save_file\<close> builds, in the order of
  their keys.\<close>

definition meta_row :: "string \<Rightarrow> int \<Rightarrow> string \<Rightarrow> row" where
  "meta_row filename file_length mimetype =
     [(''filename'', PStr filename), (''size'', PInt file_length), (''mimetype'', PStr mimetype)]"

definition apk_row :: "pyval \<Rightarrow> APKType \<Rightarrow> APKArch \<Rightarrow> string \<Rightarrow> row" where
  "apk_row new_id package architecture version =
     [(''filestore_id'', new_id),
      (''usage'', PInt (type_value package)),
      (''arch'', PInt (arch_value architecture)),
      (''version'', PStr version)]"

definition chunk_row :: "pyval \<Rightarrow> bytes \<Rightarrow> row" where
  "chunk_row new_id chunked_data =
     [(''filestore_id'', new_id),
      (''size'', PInt (int (length chunked_data))),
      (''data'', PBytes chunked_data)]"

text \<open>The \<^verbatim>\<open>for\<close> loop over the list of chunks: one insert per chunk, in order.\<close>

fun insert_chunks :: "'s collaborators \<Rightarrow> pyval \<Rightarrow> bytes list \<Rightarrow> (unit, 's) io" where
  "insert_chunks ext new_id [] = return_io ()"
| "insert_chunks ext new_id (chunked_data # rest) =
     bind_io (autoexec_insert ext ''filestore_chunks'' (chunk_row new_id chunked_data) None)
       (\<lambda>_. insert_chunks ext new_id rest)"

text \<open>The body of the \<^verbatim>\<open>try\<close> block of \<^verbatim>\<open>save_file\<close>. The payload \<open>data\<close> is the content
  of the \<^verbatim>\<open>BytesIO\<close> object; \<open>retry\<close> is a parameter the body never reads. The list of
  chunks is built in full before the first chunk is inserted.\<close>

definition save_file_try ::
  "namespace \<Rightarrow> 's collaborators \<Rightarrow> APKType \<Rightarrow> APKArch \<Rightarrow> string \<Rightarrow> string \<Rightarrow> bytes
     \<Rightarrow> bool \<Rightarrow> (bool, 's) io" where
  "save_file_try g ext package architecture version mimetype data retry =
     bind_io (delete_file g ext package architecture) (\<lambda>_.
     let file_length = int (length data) in
     bind_io (lift_io (generate_filename ext package architecture version mimetype)) (\<lambda>filename.
     bind_io (autoexec_insert ext ''filestore_meta''
                (meta_row filename file_length mimetype) None) (\<lambda>new_id.
     bind_io (autoexec_insert ext ''mad_apks''
                (apk_row new_id package architecture version) (Some ''ON DUPLICATE'')) (\<lambda>_.
     let chunk_size = CHUNK_MAX_SIZE ext in
     bind_io (lift_io (split_chunks data chunk_size)) (\<lambda>chunks.
     bind_io (insert_chunks ext new_id chunks) (\<lambda>_.
     return_io True))))))"

text \<open>The bare \<^verbatim>\<open>except:\<close> catches every exception of the block, logs, and the method
  falls through to \<^verbatim>\<open>return False\<close>.\<close>

definition save_file ::
  "namespace \<Rightarrow> 's collaborators \<Rightarrow> APKType \<Rightarrow> APKArch \<Rightarrow> string \<Rightarrow> string \<Rightarrow> bytes
     \<Rightarrow> bool \<Rightarrow> 's \<Rightarrow> bool \<times> 's" where
  "save_file g ext package architecture version mimetype data retry s =
     (case save_file_try g ext package architecture version mimetype data retry s of
        (Inr b, s') \<Rightarrow> (b, s')
      | (Inl e, s') \<Rightarrow> (False, s'))"

text \<open>A finite sequence of \<^verbatim>\<open>save_file\<close> calls, each with its own arguments, run one
  after the other on the same substrate; the results are collected in call order.\<close>

type_synonym save_args = "APKType \<times> APKArch \<times> string \<times> string \<times> bytes \<times> bool"

fun save_all :: "namespace \<Rightarrow> 's collaborators \<Rightarrow> save_args list \<Rightarrow> 's \<Rightarrow> bool list \<times> 's" where
  "save_all g ext [] s = ([], s)"
| "save_all g ext ((package, architecture, version, mimetype, data, retry) # calls) s =
     (case save_file g ext package architecture version mimetype data retry s of
        (b, s') \<Rightarrow> (case save_all g ext calls s' of (bs, s'') \<Rightarrow> (b # bs, s'')))"

section \<open>The relational substrate\<close>

text \<open>
  Modelled from the spec: the database wrapper \<^verbatim>\<open>dbc\<close>, the schema of its three tables
  and \<^verbatim>\<open>MadApkHelper.delete_file\<close> are not part of the sources at hand. The spec asks of
  the substrate a single-statement insert returning a generated identifier, a
  single-statement insert with conflict-replace semantics keyed by a composite
  uniqueness constraint, and a single-statement delete by key or by foreign reference;
  any statement may fail with \<^verbatim>\<open>StorageBackendError\<close>. The tables hold the rows as they
  are handed over. A failing backend is a schedule \<open>faults\<close>: one flag for each statement
  still to come, in order, true when that statement fails; past the end of the schedule
  no statement fails. A statement that fails changes nothing in the tables, and a
  statement that succeeds may follow one that failed.
\<close>

record db =
  filestore_meta :: "(int \<times> row) list"
  mad_apks :: "row list"
  filestore_chunks :: "row list"
  next_id :: int
  faults :: "bool list"

definition stmt :: "(db \<Rightarrow> 'a \<times> db) \<Rightarrow> ('a, db) io" where
  "stmt f s =
     (case faults s of
        [] \<Rightarrow> (case f s of (a, s') \<Rightarrow> (Inr a, s'))
      | fails # later \<Rightarrow>
          (if fails then (Inl StorageBackendError, s\<lparr>faults := later\<rparr>)
           else (case f (s\<lparr>faults := later\<rparr>) of (a, s') \<Rightarrow> (Inr a, s'))))"

type_synonym artifact_key = "pyval option \<times> pyval option"

definition row_key :: "row \<Rightarrow> artifact_key" where
  "row_key r = (map_of r ''usage'', map_of r ''arch'')"

definition row_version :: "row \<Rightarrow> pyval option" where
  "row_version r = map_of r ''version''"

definition row_artifact :: "row \<Rightarrow> pyval option" where
  "row_artifact r = map_of r ''filestore_id''"

definition key_of :: "APKType \<Rightarrow> APKArch \<Rightarrow> artifact_key" where
  "key_of package architecture =
     (Some (PInt (type_value package)), Some (PInt (arch_value architecture)))"

text \<open>Modelled from the spec: \<^verbatim>\<open>upsert\<close> of the Version Index. If a record exists for the
  key it is replaced in place, otherwise the record is inserted.\<close>

fun upsert :: "row \<Rightarrow> row list \<Rightarrow> row list" where
  "upsert r [] = [r]"
| "upsert r (x # xs) = (if row_key x = row_key r then r # xs else x # upsert r xs)"

definition meta_insert :: "row \<Rightarrow> db \<Rightarrow> pyval \<times> db" where
  "meta_insert r s =
     (PInt (next_id s),
      s\<lparr>filestore_meta := filestore_meta s @ [(next_id s, r)], next_id := next_id s + 1\<rparr>)"

definition version_upsert :: "row \<Rightarrow> db \<Rightarrow> pyval \<times> db" where
  "version_upsert r s = (PNone, s\<lparr>mad_apks := upsert r (mad_apks s)\<rparr>)"

definition chunk_insert :: "row \<Rightarrow> db \<Rightarrow> pyval \<times> db" where
  "chunk_insert r s = (PNone, s\<lparr>filestore_chunks := filestore_chunks s @ [r]\<rparr>)"

text \<open>Modelled from the spec: \<^verbatim>\<open>autoexec_insert\<close> of the wrapper, for the three statements
  the spec names. Any other statement is refused by the backend.\<close>

definition spec_autoexec_insert :: "string \<Rightarrow> row \<Rightarrow> string option \<Rightarrow> (pyval, db) io" where
  "spec_autoexec_insert table r optype =
     (if table = ''filestore_meta'' \<and> optype = None then stmt (meta_insert r)
      else if table = ''mad_apks'' \<and> optype = Some ''ON DUPLICATE'' then stmt (version_upsert r)
      else if table = ''filestore_chunks'' \<and> optype = None then stmt (chunk_insert r)
      else lift_io (Inl StorageBackendError))"

definition version_lookup :: "artifact_key \<Rightarrow> db \<Rightarrow> row option \<times> db" where
  "version_lookup k s = (find (\<lambda>r. row_key r = k) (mad_apks s), s)"

definition version_remove :: "artifact_key \<Rightarrow> db \<Rightarrow> unit \<times> db" where
  "version_remove k s = ((), s\<lparr>mad_apks := filter (\<lambda>r. row_key r \<noteq> k) (mad_apks s)\<rparr>)"

definition chunks_delete :: "pyval option \<Rightarrow> db \<Rightarrow> unit \<times> db" where
  "chunks_delete fid s =
     ((), s\<lparr>filestore_chunks := filter (\<lambda>r. row_artifact r \<noteq> fid) (filestore_chunks s)\<rparr>)"

definition meta_delete :: "pyval option \<Rightarrow> db \<Rightarrow> unit \<times> db" where
  "meta_delete fid s =
     ((), s\<lparr>filestore_meta := filter (\<lambda>m. Some (PInt (fst m)) \<noteq> fid) (filestore_meta s)\<rparr>)"

text \<open>Modelled from the spec: \<^verbatim>\<open>delete(key)\<close> of the orchestrator, the body of
  \<^verbatim>\<open>MadApkHelper.delete_file\<close>. It resolves the key through the Version Index, then
  deletes chunks, metadata and the version record, and returns true; with no record for
  the key it returns true at once. Backend errors propagate.\<close>

definition spec_delete_file :: "pyobj \<Rightarrow> APKType \<Rightarrow> APKArch \<Rightarrow> (bool, db) io" where
  "spec_delete_file session package architecture =
     bind_io (stmt (version_lookup (key_of package architecture))) (\<lambda>found.
       case found of
         None \<Rightarrow> return_io True
       | Some r \<Rightarrow>
           bind_io (stmt (chunks_delete (row_artifact r))) (\<lambda>_.
           bind_io (stmt (meta_delete (row_artifact r))) (\<lambda>_.
           bind_io (stmt (version_remove (key_of package architecture))) (\<lambda>_.
           return_io True))))"

text \<open>The collaborators over this substrate. The filename generator (the spec fixes only
  that the name is a function of key, version and content type) and the configured
  chunk size stay parameters.\<close>

definition spec_ext ::
  "(APKType \<Rightarrow> APKArch \<Rightarrow> string \<Rightarrow> string \<Rightarrow> py_error + string) \<Rightarrow> int \<Rightarrow> db collaborators" where
  "spec_ext gen chunk_max =
     \<lparr>helper_delete_file = spec_delete_file,
      autoexec_insert = spec_autoexec_insert,
      generate_filename = gen,
      CHUNK_MAX_SIZE = chunk_max\<rparr>"

definition records_for :: "artifact_key \<Rightarrow> db \<Rightarrow> row list" where
  "records_for k s = filter (\<lambda>r. row_key r = k) (mad_apks s)"

definition version_unique :: "db \<Rightarrow> bool" where
  "version_unique s = distinct (map row_key (mad_apks s))"

text \<open>Values for the examples: an empty store, a store that holds version 0.9 of one
  artifact, a filename generator, and the module's globals extended by a binding for
  \<^verbatim>\<open>session\<close>, as they would be had the module defined that name.\<close>

definition empty_db :: "bool list \<Rightarrow> db" where
  "empty_db schedule =
     \<lparr>filestore_meta = [], mad_apks = [], filestore_chunks = [], next_id = 1,
      faults = schedule\<rparr>"


definition plain_filename :: "APKType \<Rightarrow> APKArch \<Rightarrow> string \<Rightarrow> string \<Rightarrow> py_error + string" where
  "plain_filename package architecture version mimetype = Inr (version @ ''.apk'')"

definition globals_with_session :: namespace where
  "globals_with_session = (''session'', Obj ''session'') # module_globals"




section \<open>Chunk splitting: lemmas\<close>

lemma slice_index_nonneg: "0 \<le> i \<Longrightarrow> slice_index n i = min i n"
  by (simp add: slice_index_def)

lemma py_slice_chunk:
  assumes "0 < C"
  shows "py_slice xs (int i * C) ((int i + 1) * C) = take (nat C) (drop (i * nat C) xs)"
proof -
  let ?n = "int (length xs)"
  have lo: "0 \<le> int i * C" and hi: "0 \<le> (int i + 1) * C" using assms by simp_all
  have step: "(int i + 1) * C = int i * C + C" by (simp add: algebra_simps)
  have idx: "nat (int i * C) = i * nat C" using assms by (simp add: nat_mult_distrib)
  show ?thesis
  proof (cases "int i * C < ?n")
    case True
    then have a: "slice_index ?n (int i * C) = int i * C"
      using lo by (simp add: slice_index_nonneg)
    have b: "slice_index ?n ((int i + 1) * C) = min (int i * C + C) ?n"
      using hi step by (simp add: slice_index_nonneg)
    have len: "length (drop (i * nat C) xs) = nat (?n - int i * C)"
      using idx True lo by (metis length_drop nat_diff_distrib' nat_int of_nat_0_le_iff)
    have "take (nat (min (int i * C + C) ?n - int i * C)) (drop (i * nat C) xs)
          = take (nat C) (drop (i * nat C) xs)"
    proof (cases "int i * C + C \<le> ?n")
      case True
      then show ?thesis by (simp add: min_def)
    next
      case False
      then have m: "min (int i * C + C) ?n = ?n" by (simp add: min_def)
      have "length (drop (i * nat C) xs) \<le> nat C" using len False by linarith
      moreover have "length (drop (i * nat C) xs) \<le> nat (?n - int i * C)" using len by simp
      ultimately show ?thesis by (simp add: m)
    qed
    then show ?thesis by (simp add: py_slice_def Let_def a b idx)
  next
    case False
    then have a: "slice_index ?n (int i * C) = ?n"
      using lo by (simp add: slice_index_nonneg min_def)
    have b: "slice_index ?n ((int i + 1) * C) = ?n"
      using hi step False assms by (simp add: slice_index_nonneg min_def)
    have "length xs \<le> i * nat C" using False idx by linarith
    then show ?thesis by (simp add: py_slice_def Let_def a b)
  qed
qed

lemma split_chunks_pos:
  assumes "0 < C"
  shows "split_chunks buf C =
           Inr (map (\<lambda>i. take (nat C) (drop (i * nat C) buf)) [0..<chunk_count (length buf) C])"
  using assms
  by (simp add: split_chunks_def floordiv_def py_range_def chunk_count_def comp_def
      py_slice_chunk)

lemma concat_chunks_take:
  "concat (map (\<lambda>i. take c (drop (i * c) xs)) [0..<k]) = take (k * c) xs"
proof (induction k)
  case 0
  then show ?case by simp
next
  case (Suc k)
  have "take (k * c) xs @ take c (drop (k * c) xs) = take (k * c + c) xs"
    by (simp add: take_add)
  with Suc show ?case by (simp add: add.commute)
qed

lemma chunk_count_bounds:
  assumes "0 < C"
  shows "int n \<le> int (chunk_count n C) * C"
    and "(int (chunk_count n C) - 1) * C < int n"
proof -
  define k where "k = (int n + C - 1) div C"
  define r where "r = (int n + C - 1) mod C"
  have e: "k * C + r = int n + C - 1" by (simp add: k_def r_def)
  have r: "0 \<le> r" "r < C" using assms by (simp_all add: r_def)
  have k0: "0 \<le> k" using assms by (simp add: k_def pos_imp_zdiv_nonneg_iff)
  then have kk: "int (chunk_count n C) = k" by (simp add: chunk_count_def k_def)
  show "int n \<le> int (chunk_count n C) * C" using e r by (simp add: kk)
  have "(k - 1) * C = k * C - C" by (simp add: algebra_simps)
  then show "(int (chunk_count n C) - 1) * C < int n" using e r by (simp add: kk)
qed

lemma chunk_count_ceiling:
  assumes "0 < C"
  shows "int (chunk_count n C) = \<lceil>real n / real_of_int C\<rceil>"
proof -
  let ?k = "int (chunk_count n C)"
  have c: "0 < real_of_int C" using assms by simp
  have "real_of_int ((?k - 1) * C) < real_of_int (int n)"
    using chunk_count_bounds(2)[OF assms, of n] by (simp only: of_int_less_iff)
  then have lo: "real_of_int ?k - 1 < real n / real_of_int C"
    using c by (simp add: pos_less_divide_eq)
  have "real_of_int (int n) \<le> real_of_int (?k * C)"
    using chunk_count_bounds(1)[OF assms, of n] by (simp only: of_int_le_iff)
  then have hi: "real n / real_of_int C \<le> real_of_int ?k"
    using c by (simp add: pos_divide_le_eq)
  have "\<lceil>real n / real_of_int C\<rceil> = ?k"
    by (rule ceiling_unique) (use lo hi in simp_all)
  then show ?thesis by simp
qed

lemma chunk_length:
  "length (take c (drop (i * c) xs)) = min c (length xs - i * c)"
  by simp

lemma chunk_count_nat_bounds:
  assumes "0 < C"
  shows "n \<le> chunk_count n C * nat C"
    and "0 < chunk_count n C \<Longrightarrow> (chunk_count n C - 1) * nat C < n"
proof -
  have "int n \<le> int (chunk_count n C * nat C)"
    using chunk_count_bounds(1)[OF assms, of n] assms by simp
  then show "n \<le> chunk_count n C * nat C" by (simp only: of_nat_le_iff)
  assume k: "0 < chunk_count n C"
  then have "int ((chunk_count n C - 1) * nat C) = (int (chunk_count n C) - 1) * C"
    using assms by (simp add: of_nat_diff)
  then have "int ((chunk_count n C - 1) * nat C) < int n"
    using chunk_count_bounds(2)[OF assms, of n] by simp
  then show "(chunk_count n C - 1) * nat C < n" by (simp only: of_nat_less_iff)
qed

section \<open>Chunk splitting: round trip and sizes\<close>

text \<open>
  C2. For every payload \<open>P\<close> and every chunk size \<open>C > 0\<close> the splitting step of
  \<^verbatim>\<open>save_file\<close> returns a list of chunks, and joining the chunks in order gives back
  \<open>P\<close>.
\<close>

theorem split_chunks_join:
  assumes "0 < C"
  shows "\<exists>cs. split_chunks P C = Inr cs \<and> concat cs = P"
proof -
  have "length P \<le> chunk_count (length P) C * nat C"
    by (rule chunk_count_nat_bounds(1)[OF assms])
  then show ?thesis
    by (simp add: split_chunks_pos[OF assms] concat_chunks_take)
qed

text \<open>The round trip at a payload of five bytes and chunk size two.\<close>

theorem split_chunks_join_witness:
  "(0::int) < 2 \<and> (\<exists>cs. split_chunks [1, 2, 3, 4, 5] 2 = Inr cs \<and> concat cs = [1, 2, 3, 4, 5])"
  using split_chunks_join [of 2 "[1, 2, 3, 4, 5]"] by simp

text \<open>
  C3. For every payload \<open>P\<close> and every chunk size \<open>C > 0\<close> the splitting step produces
  exactly \<open>\<lceil>len P / C\<rceil>\<close> chunks; every chunk but the last has length \<open>C\<close>; the last
  chunk, when there is one, has a length in \<open>(0, C]\<close>; and the lengths add up to the
  length of \<open>P\<close>.
\<close>

theorem split_chunks_sizes:
  assumes "0 < C"
  shows "\<exists>cs. split_chunks P C = Inr cs
           \<and> int (length cs) = \<lceil>real (length P) / real_of_int C\<rceil>
           \<and> (\<forall>i. i + 1 < length cs \<longrightarrow> int (length (cs ! i)) = C)
           \<and> (cs \<noteq> [] \<longrightarrow> 0 < length (last cs) \<and> int (length (last cs)) \<le> C)
           \<and> sum_list (map length cs) = length P"
proof -
  let ?n = "length P"
  let ?k = "chunk_count ?n C"
  let ?c = "nat C"
  let ?cs = "map (\<lambda>i. take ?c (drop (i * ?c) P)) [0..<?k]"
  have eq: "split_chunks P C = Inr ?cs" by (rule split_chunks_pos[OF assms])
  have len: "length ?cs = ?k" by simp
  have cnt: "int (length ?cs) = \<lceil>real ?n / real_of_int C\<rceil>"
    using chunk_count_ceiling[OF assms, of ?n] by simp
  have full: "\<forall>i. i + 1 < length ?cs \<longrightarrow> int (length (?cs ! i)) = C"
  proof (intro allI impI)
    fix i assume i: "i + 1 < length ?cs"
    then have k: "0 < ?k" and ik: "i + 1 \<le> ?k - 1" by simp_all
    have "(i + 1) * ?c \<le> (?k - 1) * ?c" using ik by (rule mult_le_mono1)
    also have "\<dots> < ?n" using chunk_count_nat_bounds(2)[OF assms k] .
    finally have "i * ?c + ?c < ?n" by simp
    then have "min ?c (?n - i * ?c) = ?c" by simp
    moreover have "?cs ! i = take ?c (drop (i * ?c) P)" using i by simp
    ultimately show "int (length (?cs ! i)) = C" using assms by simp
  qed
  have lst: "?cs \<noteq> [] \<longrightarrow> 0 < length (last ?cs) \<and> int (length (last ?cs)) \<le> C"
  proof
    assume "?cs \<noteq> []"
    then have k: "0 < ?k" by simp
    then have "last ?cs = take ?c (drop ((?k - 1) * ?c) P)"
      by (simp add: last_map last_upt)
    moreover have "(?k - 1) * ?c < ?n" using chunk_count_nat_bounds(2)[OF assms k] .
    ultimately show "0 < length (last ?cs) \<and> int (length (last ?cs)) \<le> C"
      using assms by simp
  qed
  have "sum_list (map length ?cs) = length (concat ?cs)" by (simp add: length_concat)
  also have "\<dots> = ?n"
    using chunk_count_nat_bounds(1)[OF assms, of ?n] by (simp add: concat_chunks_take)
  finally have tot: "sum_list (map length ?cs) = ?n" .
  show ?thesis using eq cnt full lst tot by blast
qed

text \<open>The sizes at a payload of five bytes and chunk size two: chunks of 2, 2 and 1.\<close>

theorem split_chunks_sizes_witness:
  "(0::int) < 2 \<and> (\<exists>cs. split_chunks [1, 2, 3, 4, 5] 2 = Inr cs
           \<and> int (length cs) = \<lceil>real (length [1, 2, 3, 4, 5 :: byte]) / real_of_int 2\<rceil>
           \<and> (\<forall>i. i + 1 < length cs \<longrightarrow> int (length (cs ! i)) = 2)
           \<and> (cs \<noteq> [] \<longrightarrow> 0 < length (last cs) \<and> int (length (last cs)) \<le> 2)
           \<and> sum_list (map length cs) = length [1, 2, 3, 4, 5 :: byte])"
  using split_chunks_sizes [of 2 "[1, 2, 3, 4, 5]"] by simp

section \<open>Chunk splitting: a chunk size that is not positive\<close>

lemma slice_index_ge0: "0 \<le> n \<Longrightarrow> 0 \<le> slice_index n i"
  by (simp add: slice_index_def)

lemma neg_chunk_count_small:
  fixes n C :: int
  assumes C: "C < 0" and k: "0 < (n + C - 1) div C"
  shows "n \<le> 1"
proof -
  define k where "k = (n + C - 1) div C"
  define r where "r = (n + C - 1) mod C"
  have e: "k * C + r = n + C - 1" by (simp add: k_def r_def)
  have r: "r \<le> 0" using C by (simp add: r_def)
  have "1 \<le> k" using k by (simp add: k_def)
  then have "k * C \<le> 1 * C" using C by (intro mult_right_mono_neg) simp_all
  then show ?thesis using e r by simp
qed

lemma py_slice_neg_empty:
  assumes C: "C < 0" and i: "0 \<le> i" and n: "length xs \<le> 1"
  shows "py_slice xs (i * C) ((i + 1) * C) = []"
proof -
  let ?n = "int (length xs)"
  define t where "t = (i + 1) * C"
  have "1 \<le> i + 1" using i by simp
  then have "(i + 1) * C \<le> 1 * C" using C by (intro mult_right_mono_neg) simp_all
  then have "t \<le> C" by (simp only: t_def mult_1)
  then have "t < 0" and "t + ?n \<le> 0" using C n by linarith+
  then have neg: "(i + 1) * C < 0" and le: "(i + 1) * C + ?n \<le> 0" by (simp_all only: t_def)
  then have b: "slice_index ?n ((i + 1) * C) = 0" by (simp add: slice_index_def)
  have a: "0 \<le> slice_index ?n (i * C)" by (rule slice_index_ge0) simp
  show ?thesis using a by (simp add: py_slice_def Let_def b)
qed

lemma split_chunks_negative:
  assumes "C < 0"
  shows "\<exists>cs. split_chunks P C = Inr cs \<and> (\<forall>c \<in> set cs. c = []) \<and> concat cs = []
           \<and> (2 \<le> length P \<longrightarrow> cs = [])"
proof -
  let ?n = "int (length P)"
  let ?k = "(?n + C - 1) div C"
  let ?f = "\<lambda>i. py_slice P (i * C) ((i + 1) * C)"
  have eq: "split_chunks P C = Inr (map ?f (py_range ?k))"
    using assms by (simp add: split_chunks_def floordiv_def)
  have empty: "\<forall>i \<in> set (py_range ?k). ?f i = []"
  proof
    fix i assume "i \<in> set (py_range ?k)"
    then have i: "0 \<le> i" and "0 < ?k" by (auto simp: py_range_def)
    then have "?n \<le> 1" using neg_chunk_count_small[OF assms] by blast
    then have "length P \<le> 1" by simp
    then show "?f i = []" by (rule py_slice_neg_empty[OF assms i])
  qed
  then have each: "\<forall>c \<in> set (map ?f (py_range ?k)). c = []" by simp
  from empty have all: "concat (map ?f (py_range ?k)) = []" by simp
  have none: "2 \<le> length P \<longrightarrow> map ?f (py_range ?k) = []"
  proof
    assume "2 \<le> length P"
    then have "\<not> ?n \<le> 1" by simp
    then have "\<not> 0 < ?k" using neg_chunk_count_small[OF assms] by blast
    then show "map ?f (py_range ?k) = []" by (simp add: py_range_def)
  qed
  show ?thesis using eq each all none by blast
qed

text \<open>
  C6 (as amended). With chunk size \<open>0\<close> the splitting step raises \<^verbatim>\<open>ZeroDivisionError\<close> for
  every payload. With a negative chunk size it raises nothing: it returns a list of
  chunks, each of them empty, and no chunk at all for a payload of two bytes or more, so
  that the payload is not in them.
\<close>

theorem split_chunks_nonpositive:
  "split_chunks P 0 = Inl ZeroDivisionError \<and>
   (C < 0 \<longrightarrow>
      (\<exists>cs. split_chunks P C = Inr cs \<and> (\<forall>c \<in> set cs. c = []) \<and> concat cs = []
         \<and> (2 \<le> length P \<longrightarrow> cs = [])))"
  using split_chunks_negative[of C P] by (simp add: split_chunks_def floordiv_def)

text \<open>Chunk size \<open>0\<close> and chunk size \<open>-2\<close> at a payload of three bytes, where no chunk is
  left, and chunk size \<open>-1\<close> at a payload of one byte, where one empty chunk is.\<close>

theorem split_chunks_nonpositive_witness:
  "split_chunks [1, 2, 3] 0 = Inl ZeroDivisionError
   \<and> (-2::int) < 0 \<and> 2 \<le> length [1, 2, 3 :: byte] \<and> split_chunks [1, 2, 3] (-2) = Inr []
   \<and> (-1::int) < 0 \<and> split_chunks [1] (-1) = Inr [[]]
   \<and> (\<exists>cs. split_chunks [1] (-1) = Inr cs \<and> (\<forall>c \<in> set cs. c = []) \<and> concat cs = [])"
proof -
  have one: "split_chunks [1] (-1) = Inr [[]]" by code_simp
  show ?thesis
    using split_chunks_nonpositive[of "[1, 2, 3]" "-2"] split_chunks_nonpositive[of "[1]" "-1"] one
    by simp
qed

text \<open>C6 as stated fails: five bytes and chunk size \<open>-2\<close> give no error and no chunk.\<close>

theorem split_chunks_negative_counterexample:
  "split_chunks [1, 2, 3, 4, 5] (-2) = Inr []"
  by code_simp


section \<open>The undefined name \<^verbatim>\<open>session\<close>\<close>

lemma bind_io_Inl: "m s = (Inl e, s1) \<Longrightarrow> bind_io m f s = (Inl e, s1)"
  by (simp add: bind_io_def)

lemma bind_io_Inr: "m s = (Inr a, s1) \<Longrightarrow> bind_io m f s = f a s1"
  by (simp add: bind_io_def)

lemma load_session_undefined:
  "load_global module_globals ''session'' = Inl (NameError ''session'')"
  by code_simp

lemma load_session_bound:
  "load_global globals_with_session ''session'' = Inr (Obj ''session'')"
  by (simp add: load_global_def globals_with_session_def)

lemma lift_session_undefined:
  "lift_io (load_global module_globals ''session'') s = (Inl (NameError ''session''), s)"
  by (simp add: lift_io_def load_session_undefined)

lemma delete_file_undefined:
  "delete_file module_globals ext package architecture s = (Inl (NameError ''session''), s)"
  unfolding delete_file_def by (rule bind_io_Inl) (rule lift_session_undefined)

lemma save_file_try_delete_error:
  assumes "delete_file g ext package architecture s = (Inl e, s1)"
  shows "save_file_try g ext package architecture version mimetype data retry s = (Inl e, s1)"
  unfolding save_file_try_def by (rule bind_io_Inl) (rule assms)

lemma save_file_delete_error:
  assumes "delete_file g ext package architecture s = (Inl e, s1)"
  shows "save_file g ext package architecture version mimetype data retry s = (False, s1)"
  by (simp add: save_file_def save_file_try_delete_error[OF assms])

text \<open>
  C1. Under the globals of the module as it is written, \<^verbatim>\<open>save_file\<close> returns false and
  leaves the substrate as it found it, whatever the arguments, the collaborators and
  the state: the lookup of \<^verbatim>\<open>session\<close> in \<^verbatim>\<open>delete_file\<close> raises before any call reaches
  the substrate, and the handler turns the exception into the result false.
\<close>

theorem save_file_returns_false:
  "save_file module_globals ext package architecture version mimetype data retry s = (False, s)"
  by (rule save_file_delete_error) (rule delete_file_undefined)

text \<open>
  C10. Under the globals of the module as it is written, each of \<^verbatim>\<open>delete_file\<close>,
  \<^verbatim>\<open>get_current_version\<close> and \<^verbatim>\<open>get_current_package_info\<close> raises \<^verbatim>\<open>NameError\<close> for the
  name \<^verbatim>\<open>session\<close>, for every argument, helper and state; none of them returns a value,
  and the substrate is not touched.
\<close>

theorem lookups_raise_name_error:
  "delete_file module_globals ext package architecture s = (Inl (NameError ''session''), s)
   \<and> get_current_version module_globals helper_version package architecture s
       = (Inl (NameError ''session''), s)
   \<and> get_current_package_info module_globals helper_info package s
       = (Inl (NameError ''session''), s)"
  unfolding get_current_version_def get_current_package_info_def
  by (simp add: delete_file_undefined bind_io_def lift_session_undefined)

text \<open>
  C9. The flag \<^verbatim>\<open>retry\<close> has no influence: two runs of \<^verbatim>\<open>save_file\<close> that differ only in
  the flag give the same result and the same final state, under any globals and
  collaborators.
\<close>

theorem save_file_ignores_retry:
  "save_file g ext package architecture version mimetype data True s
   = save_file g ext package architecture version mimetype data False s"
  by (simp add: save_file_def save_file_try_def)

text \<open>
  C5 (as amended). A failure of the first step aborts the save: when \<^verbatim>\<open>delete_file\<close>
  raises, \<^verbatim>\<open>save_file\<close> returns false, and the substrate is left as the failed delete
  left it; no metadata, version record or chunk is written.
\<close>

theorem save_file_aborts_when_delete_raises:
  assumes "delete_file g ext package architecture s = (Inl e, s1)"
  shows "save_file g ext package architecture version mimetype data retry s = (False, s1)"
  using assms by (rule save_file_delete_error)

text \<open>A backend that fails at its first statement, with \<^verbatim>\<open>session\<close> bound: the delete
  raises and the save returns false on the store the delete left, which is still empty.\<close>

theorem save_file_aborts_when_delete_raises_witness:
  "delete_file globals_with_session (spec_ext plain_filename 2) (APKType 0) (APKArch 2)
     (empty_db [True]) = (Inl StorageBackendError, empty_db [])
   \<and> save_file globals_with_session (spec_ext plain_filename 2) (APKType 0) (APKArch 2)
       ''1.0'' ''apk'' [1, 2, 3] False (empty_db [True]) = (False, empty_db [])"
proof -
  have d: "delete_file globals_with_session (spec_ext plain_filename 2) (APKType 0) (APKArch 2)
     (empty_db [True]) = (Inl StorageBackendError, empty_db [])"
    by code_simp
  show ?thesis
    using d save_file_aborts_when_delete_raises [OF d, of "''1.0''" "''apk''" "[1, 2, 3]" False]
    by simp
qed

text \<open>C5 as stated fails: in the module as it is written the delete raises, and the save
  returns false with nothing written, here on an empty store that never fails.\<close>

theorem save_file_delete_not_best_effort_counterexample:
  "delete_file module_globals (spec_ext plain_filename 2) (APKType 0) (APKArch 2)
     (empty_db []) = (Inl (NameError ''session''), empty_db [])
   \<and> save_file module_globals (spec_ext plain_filename 2) (APKType 0) (APKArch 2)
       ''1.0'' ''apk'' [1, 2, 3] False (empty_db []) = (False, empty_db [])"
  by (simp add: delete_file_undefined save_file_delete_error[OF delete_file_undefined])

text \<open>
  C8. Deleting a key with no current artifact should return true and change nothing. In
  the module as it is written the call raises \<^verbatim>\<open>NameError\<close> instead, here on an empty
  store.
\<close>

theorem delete_file_absent_key_raises:
  "delete_file module_globals (spec_ext plain_filename 2) (APKType 0) (APKArch 2)
     (empty_db []) = (Inl (NameError ''session''), empty_db [])"
  by (rule delete_file_undefined)

section \<open>The steps of \<^verbatim>\<open>save_file\<close> and their failures\<close>

lemmas io_defs = bind_io_def lift_io_def return_io_def

lemma insert_chunks_prefix:
  "insert_chunks ext new_id cs1 s = (Inr (), t)
   \<Longrightarrow> insert_chunks ext new_id (cs1 @ rest) s = insert_chunks ext new_id rest t"
proof (induction cs1 arbitrary: s)
  case Nil
  then show ?case by (simp add: return_io_def)
next
  case (Cons c cs1)
  then show ?case
    by (auto simp: bind_io_def split: prod.splits sum.splits)
qed

lemma save_file_true_steps:
  assumes "save_file g ext p a v m d r s = (True, s')"
  shows "\<exists>b s1 fn nid s2 x s3 cs.
         delete_file g ext p a s = (Inr b, s1) \<and>
         generate_filename ext p a v m = Inr fn \<and>
         autoexec_insert ext ''filestore_meta'' (meta_row fn (int (length d)) m) None s1
           = (Inr nid, s2) \<and>
         autoexec_insert ext ''mad_apks'' (apk_row nid p a v) (Some ''ON DUPLICATE'') s2
           = (Inr x, s3) \<and>
         split_chunks d (CHUNK_MAX_SIZE ext) = Inr cs \<and>
         insert_chunks ext nid cs s3 = (Inr (), s')"
  using assms
  by (auto simp: save_file_def save_file_try_def io_defs Let_def
      split: prod.splits sum.splits)

lemma save_file_after_upsert:
  assumes "delete_file g ext p a s = (Inr b, s1)"
    and "generate_filename ext p a v m = Inr fn"
    and "autoexec_insert ext ''filestore_meta'' (meta_row fn (int (length d)) m) None s1
           = (Inr nid, s2)"
    and "autoexec_insert ext ''mad_apks'' (apk_row nid p a v) (Some ''ON DUPLICATE'') s2
           = (Inr x, s3)"
  shows "save_file g ext p a v m d r s =
     (case split_chunks d (CHUNK_MAX_SIZE ext) of
        Inl e \<Rightarrow> (False, s3)
      | Inr cs \<Rightarrow> (case insert_chunks ext nid cs s3 of
                    (Inl e, s4) \<Rightarrow> (False, s4) | (Inr u, s4) \<Rightarrow> (True, s4)))"
  using assms
  by (simp add: save_file_def save_file_try_def io_defs Let_def
      split: prod.splits sum.splits)


text \<open>
  C4. \<^verbatim>\<open>save_file\<close> returns true only if the delete, the filename, the metadata insert,
  the version upsert, the splitting and every chunk insert returned without raising.
  An exception at any of these steps makes it return false, and the substrate stays as
  the raising step left it: after the \<open>k\<close>-th chunk insert raises, the metadata row, the
  version record and the first \<open>k - 1\<close> chunks remain.
\<close>

theorem save_file_true_only_if_all_steps:
  "(save_file g ext p a v m d r s = (True, s') \<longrightarrow>
      (\<exists>b s1 fn nid s2 x s3 cs.
         delete_file g ext p a s = (Inr b, s1) \<and>
         generate_filename ext p a v m = Inr fn \<and>
         autoexec_insert ext ''filestore_meta'' (meta_row fn (int (length d)) m) None s1
           = (Inr nid, s2) \<and>
         autoexec_insert ext ''mad_apks'' (apk_row nid p a v) (Some ''ON DUPLICATE'') s2
           = (Inr x, s3) \<and>
         split_chunks d (CHUNK_MAX_SIZE ext) = Inr cs \<and>
         insert_chunks ext nid cs s3 = (Inr (), s')))
   \<and> (\<forall>e s1. delete_file g ext p a s = (Inl e, s1) \<longrightarrow>
         save_file g ext p a v m d r s = (False, s1))
   \<and> (\<forall>b s1. delete_file g ext p a s = (Inr b, s1) \<longrightarrow>
        (\<forall>e. generate_filename ext p a v m = Inl e \<longrightarrow>
           save_file g ext p a v m d r s = (False, s1)) \<and>
        (\<forall>fn. generate_filename ext p a v m = Inr fn \<longrightarrow>
          (\<forall>e s2. autoexec_insert ext ''filestore_meta'' (meta_row fn (int (length d)) m) None s1
                     = (Inl e, s2) \<longrightarrow>
             save_file g ext p a v m d r s = (False, s2)) \<and>
          (\<forall>nid s2. autoexec_insert ext ''filestore_meta'' (meta_row fn (int (length d)) m) None s1
                     = (Inr nid, s2) \<longrightarrow>
            (\<forall>e s3. autoexec_insert ext ''mad_apks'' (apk_row nid p a v)
                        (Some ''ON DUPLICATE'') s2 = (Inl e, s3) \<longrightarrow>
               save_file g ext p a v m d r s = (False, s3)) \<and>
            (\<forall>x s3. autoexec_insert ext ''mad_apks'' (apk_row nid p a v)
                        (Some ''ON DUPLICATE'') s2 = (Inr x, s3) \<longrightarrow>
              (\<forall>e. split_chunks d (CHUNK_MAX_SIZE ext) = Inl e \<longrightarrow>
                 save_file g ext p a v m d r s = (False, s3)) \<and>
              (\<forall>cs1 c cs2 t e t'.
                 split_chunks d (CHUNK_MAX_SIZE ext) = Inr (cs1 @ c # cs2) \<and>
                 insert_chunks ext nid cs1 s3 = (Inr (), t) \<and>
                 autoexec_insert ext ''filestore_chunks'' (chunk_row nid c) None t = (Inl e, t')
                 \<longrightarrow> save_file g ext p a v m d r s = (False, t'))))))"
proof (intro conjI allI impI, goal_cases)
  case 1
  then show ?case by (rule save_file_true_steps)
next
  case (2 e s1)
  then show ?case by (rule save_file_delete_error)
next
  case (3 b s1 e)
  then show ?case
    by (simp add: save_file_def save_file_try_def io_defs Let_def)
next
  case (4 b s1 fn e s2)
  then show ?case
    by (simp add: save_file_def save_file_try_def io_defs Let_def)
next
  case (5 b s1 fn nid s2 e s3)
  then show ?case
    by (simp add: save_file_def save_file_try_def io_defs Let_def)
next
  case (6 b s1 fn nid s2 x s3 e)
  then show ?case
    by (simp add: save_file_after_upsert)
next
  case (7 b s1 fn nid s2 x s3 cs1 c cs2 t e t')
  then have "insert_chunks ext nid (cs1 @ c # cs2) s3 = (Inl e, t')"
    by (simp add: insert_chunks_prefix bind_io_def)
  with 7 show ?case
    by (simp add: save_file_after_upsert)
qed


text \<open>
  Two runs with \<^verbatim>\<open>session\<close> bound, three bytes and chunk size two. On a backend that never
  fails every step returns and the result is true. On a backend that fails at its fifth
  statement the second chunk insert raises: the result is false, and the metadata row,
  the version record and the first chunk stay in the store.
\<close>

theorem save_file_true_only_if_all_steps_witness:
  "save_file globals_with_session (spec_ext plain_filename 2) (APKType 0) (APKArch 2)
     ''1.0'' ''apk'' [1, 2, 3] False (empty_db [])
   = (True,
      \<lparr>filestore_meta = [(1, meta_row ''1.0.apk'' 3 ''apk'')],
       mad_apks = [apk_row (PInt 1) (APKType 0) (APKArch 2) ''1.0''],
       filestore_chunks = [chunk_row (PInt 1) [1, 2], chunk_row (PInt 1) [3]],
       next_id = 2, faults = []\<rparr>)
   \<and> (\<exists>b s1 fn nid s2 x s3 cs.
         delete_file globals_with_session (spec_ext plain_filename 2) (APKType 0) (APKArch 2)
           (empty_db []) = (Inr b, s1) \<and>
         generate_filename (spec_ext plain_filename 2) (APKType 0) (APKArch 2) ''1.0'' ''apk''
           = Inr fn \<and>
         autoexec_insert (spec_ext plain_filename 2) ''filestore_meta''
           (meta_row fn (int (length [1, 2, 3 :: byte])) ''apk'') None s1 = (Inr nid, s2) \<and>
         autoexec_insert (spec_ext plain_filename 2) ''mad_apks''
           (apk_row nid (APKType 0) (APKArch 2) ''1.0'') (Some ''ON DUPLICATE'') s2
           = (Inr x, s3) \<and>
         split_chunks [1, 2, 3] (CHUNK_MAX_SIZE (spec_ext plain_filename 2)) = Inr cs \<and>
         insert_chunks (spec_ext plain_filename 2) nid cs s3
           = (Inr (),
              \<lparr>filestore_meta = [(1, meta_row ''1.0.apk'' 3 ''apk'')],
               mad_apks = [apk_row (PInt 1) (APKType 0) (APKArch 2) ''1.0''],
               filestore_chunks = [chunk_row (PInt 1) [1, 2], chunk_row (PInt 1) [3]],
               next_id = 2, faults = []\<rparr>))
   \<and> autoexec_insert (spec_ext plain_filename 2) ''filestore_chunks''
         (chunk_row (PInt 1) [3]) None
         \<lparr>filestore_meta = [(1, meta_row ''1.0.apk'' 3 ''apk'')],
          mad_apks = [apk_row (PInt 1) (APKType 0) (APKArch 2) ''1.0''],
          filestore_chunks = [chunk_row (PInt 1) [1, 2]],
          next_id = 2, faults = [True]\<rparr>
       = (Inl StorageBackendError,
          \<lparr>filestore_meta = [(1, meta_row ''1.0.apk'' 3 ''apk'')],
           mad_apks = [apk_row (PInt 1) (APKType 0) (APKArch 2) ''1.0''],
           filestore_chunks = [chunk_row (PInt 1) [1, 2]],
           next_id = 2, faults = []\<rparr>)
   \<and> save_file globals_with_session (spec_ext plain_filename 2) (APKType 0) (APKArch 2)
       ''1.0'' ''apk'' [1, 2, 3] False (empty_db [False, False, False, False, True])
     = (False,
        \<lparr>filestore_meta = [(1, meta_row ''1.0.apk'' 3 ''apk'')],
         mad_apks = [apk_row (PInt 1) (APKType 0) (APKArch 2) ''1.0''],
         filestore_chunks = [chunk_row (PInt 1) [1, 2]],
         next_id = 2, faults = []\<rparr>)"
  (is "?ok \<and> ?steps \<and> ?raise \<and> ?failed")
proof -
  let ?G = globals_with_session
  let ?E = "spec_ext plain_filename 2"
  let ?s1 = "\<lparr>filestore_meta = [], mad_apks = [], filestore_chunks = [], next_id = 1,
              faults = [False, False, False, True]\<rparr>"
  let ?s2 = "\<lparr>filestore_meta = [(1, meta_row ''1.0.apk'' 3 ''apk'')], mad_apks = [],
              filestore_chunks = [], next_id = 2, faults = [False, False, True]\<rparr>"
  let ?s3 = "\<lparr>filestore_meta = [(1, meta_row ''1.0.apk'' 3 ''apk'')],
              mad_apks = [apk_row (PInt 1) (APKType 0) (APKArch 2) ''1.0''],
              filestore_chunks = [], next_id = 2, faults = [False, True]\<rparr>"
  let ?t = "\<lparr>filestore_meta = [(1, meta_row ''1.0.apk'' 3 ''apk'')],
             mad_apks = [apk_row (PInt 1) (APKType 0) (APKArch 2) ''1.0''],
             filestore_chunks = [chunk_row (PInt 1) [1, 2]],
             next_id = 2, faults = [True]\<rparr>"
  let ?u = "\<lparr>filestore_meta = [(1, meta_row ''1.0.apk'' 3 ''apk'')],
             mad_apks = [apk_row (PInt 1) (APKType 0) (APKArch 2) ''1.0''],
             filestore_chunks = [chunk_row (PInt 1) [1, 2]],
             next_id = 2, faults = []\<rparr>"
  have ok: ?ok by code_simp
  have steps: ?steps
    using ok save_file_true_only_if_all_steps
      [of ?G ?E "APKType 0" "APKArch 2" "''1.0''" "''apk''" "[1, 2, 3]" False "empty_db []"]
    by blast
  have d: "delete_file ?G ?E (APKType 0) (APKArch 2) (empty_db [False, False, False, False, True]) = (Inr True, ?s1)"
    by code_simp
  have fn: "generate_filename ?E (APKType 0) (APKArch 2) ''1.0'' ''apk'' = Inr ''1.0.apk''"
    by code_simp
  have mi: "autoexec_insert ?E ''filestore_meta''
              (meta_row ''1.0.apk'' (int (length [1, 2, 3 :: byte])) ''apk'') None ?s1
            = (Inr (PInt 1), ?s2)"
    by code_simp
  have up: "autoexec_insert ?E ''mad_apks'' (apk_row (PInt 1) (APKType 0) (APKArch 2) ''1.0'')
              (Some ''ON DUPLICATE'') ?s2 = (Inr PNone, ?s3)"
    by code_simp
  have sp: "split_chunks [1, 2, 3] (CHUNK_MAX_SIZE ?E) = Inr ([[1, 2]] @ [3] # [])"
    by code_simp
  have ic: "insert_chunks ?E (PInt 1) [[1, 2]] ?s3 = (Inr (), ?t)"
    by code_simp
  have raise: ?raise by code_simp
  note all = save_file_true_only_if_all_steps
      [of ?G ?E "APKType 0" "APKArch 2" "''1.0''" "''apk''" "[1, 2, 3]" False
          "empty_db [False, False, False, False, True]" ?u]
  note after_delete = all [THEN conjunct2, THEN conjunct2, rule_format, OF d]
  note after_name = after_delete [THEN conjunct2, rule_format, OF fn]
  note after_meta = after_name [THEN conjunct2, rule_format, OF mi]
  note after_upsert = after_meta [THEN conjunct2, rule_format, OF up]
  note in_loop = after_upsert [THEN conjunct2, rule_format,
      of "[[1, 2]]" "[3]" "[]" ?t StorageBackendError ?u]
  have failed: ?failed
    using sp ic raise by (intro in_loop conjI)
  show ?thesis using ok steps raise failed by (intro conjI)
qed

section \<open>The version record of a key\<close>











lemma version_unique_cong: "mad_apks s' = mad_apks s \<Longrightarrow> version_unique s' = version_unique s"
  by (simp add: version_unique_def)





























text \<open>
  Where the record is not that of the most recent successful save: had the module bound
  \<^verbatim>\<open>session\<close>, a save that fails in its chunk writes, after its version write, would
  leave its own version in the record. Here the first save returns true, the second
  fails at its second chunk and the record carries version 2.0. No run of the module as
  it is written gets that far.
\<close>

lemma save_all_failed_save_leaves_its_version:
  "fst (save_all globals_with_session (spec_ext plain_filename 2)
        [(APKType 0, APKArch 2, ''1.0'', ''apk'', [1, 2, 3], False),
         (APKType 0, APKArch 2, ''2.0'', ''apk'', [4, 5, 6], False)]
        (empty_db (replicate 12 False @ [True])))
     = [True, False]
   \<and> map row_version (records_for (key_of (APKType 0) (APKArch 2))
        (snd (save_all globals_with_session (spec_ext plain_filename 2)
          [(APKType 0, APKArch 2, ''1.0'', ''apk'', [1, 2, 3], False),
           (APKType 0, APKArch 2, ''2.0'', ''apk'', [4, 5, 6], False)]
          (empty_db (replicate 12 False @ [True])))))
     = [Some (PStr ''2.0'')]"
  by code_simp

end
